theory Spec2Isabelle
  imports Complex_Main "HOL-Library.Sublist" "HOL-Library.Word"
begin

section \<open>Data model (types.ts)\<close>

text \<open>
  A TypeScript \<^verbatim>\<open>number\<close> is a double. Every finite double is a rational, and the only
  operation the root component applies to a number is the comparison \<^verbatim>\<open>d.price <= 1500\<close>,
  so numbers are rationals here (NaN and the infinities are left out).
\<close>

type_synonym number = rat

text \<open>
  A TypeScript \<^verbatim>\<open>string\<close> is a sequence of UTF-16 code units, and \<^verbatim>\<open>===\<close>,
  \<^verbatim>\<open>includes\<close> and \<^verbatim>\<open>toLowerCase\<close> work on that sequence. \<open>str\<close> writes a string
  literal: each character of the literal is the code unit of the same number.
\<close>

type_synonym code_unit = "16 word"

type_synonym js_string = "code_unit list"

definition str :: "string \<Rightarrow> js_string" where
  "str s = map of_char s"

text \<open>
  The \<^verbatim>\<open>category\<close> field of a destination is a closed union of seven string literals.
  \<open>category_str\<close> gives the string that the running program holds for each of them.
\<close>

datatype Category = Beach | Mountain | City | Cultural | Nature | Luxury | History

fun category_str :: "Category \<Rightarrow> js_string" where
  "category_str Beach = str ''Beach''"
| "category_str Mountain = str ''Mountain''"
| "category_str City = str ''City''"
| "category_str Cultural = str ''Cultural''"
| "category_str Nature = str ''Nature''"
| "category_str Luxury = str ''Luxury''"
| "category_str History = str ''History''"

text \<open>The optional \<^verbatim>\<open>timeline\<close> is a list of (day, description) entries, or absent.\<close>

record Destination =
  id_d :: js_string
  name :: js_string
  location :: js_string
  image :: js_string
  description :: js_string
  rating :: number
  price :: number
  category :: Category
  reviews :: number
  bestTime :: js_string
  timeline :: "(number \<times> js_string) list option"

text \<open>The optional \<^verbatim>\<open>createdAt\<close> date is a number of milliseconds, or absent.\<close>

record User =
  uid :: js_string
  name :: js_string
  username :: js_string
  email :: js_string
  wishlist :: "js_string list"
  visitedPlaces :: "js_string list"
  createdAt :: "int option"

datatype ViewState = HOME | EXPLORE | DETAILS | CHATBOT | LOGIN | REGISTER | DASHBOARD

section \<open>State of the root component (App)\<close>

text \<open>
  Modelled from the spec: \<^verbatim>\<open>NotificationType\<close> is declared in the notification component,
  which is not among the sources. The spec gives its values as info, success and error, and
  these are the three literals that the root component passes.
\<close>

datatype NotificationType = Info | Success | Error

record Notification =
  message :: js_string
  type :: NotificationType
  isVisible :: bool

record app_state =
  view :: ViewState
  selectedDestination :: "Destination option"
  searchTerm :: js_string
  activeCategory :: js_string
  searchDate :: js_string
  searchGuests :: js_string
  user :: "User option"
  authLoading :: bool
  notification :: Notification

definition CATEGORIES :: "js_string list" where
  "CATEGORIES =
     [str ''All'', str ''Beach'', str ''Mountain'', str ''City'', str ''Cultural'',
      str ''Nature'', str ''Luxury'', str ''Budget Friendly'']"

text \<open>The values given to \<^verbatim>\<open>useState\<close> when the component is mounted.\<close>

definition init_state :: app_state where
  "init_state =
     \<lparr>view = HOME, selectedDestination = None, searchTerm = [], activeCategory = str ''All'',
      searchDate = [], searchGuests = [], user = None, authLoading = True,
      notification = \<lparr>message = [], type = Info, isVisible = False\<rparr>\<rparr>"

section \<open>Notifications\<close>

definition showNotification :: "js_string \<Rightarrow> NotificationType \<Rightarrow> app_state \<Rightarrow> app_state" where
  "showNotification msg ty s =
     s\<lparr>notification := \<lparr>message = msg, type = ty, isVisible = True\<rparr>\<rparr>"

definition closeNotification :: "app_state \<Rightarrow> app_state" where
  "closeNotification s = s\<lparr>notification := (notification s)\<lparr>isVisible := False\<rparr>\<rparr>"

section \<open>The destination filter\<close>

text \<open>
  \<^verbatim>\<open>String.prototype.toLowerCase\<close> is a built-in of the language, defined by the Unicode
  case conversion. On a string whose code units are all ASCII it replaces the letters
  \<^verbatim>\<open>A\<close> to \<^verbatim>\<open>Z\<close> (65 to 90) by \<^verbatim>\<open>a\<close> to \<^verbatim>\<open>z\<close> and changes nothing else. On a string
  with a code unit outside ASCII its result comes from the Unicode tables of the runtime,
  which may change any letter and even the length: \<open>unicode\<close> is that conversion, a
  parameter about which nothing is assumed.
\<close>

type_synonym case_conversion = "js_string \<Rightarrow> js_string"

definition is_ascii :: "js_string \<Rightarrow> bool" where
  "is_ascii s = list_all (\<lambda>c. c < 128) s"

definition lower_ascii :: "code_unit \<Rightarrow> code_unit" where
  "lower_ascii c = (if 65 \<le> c \<and> c \<le> 90 then c + 32 else c)"

definition toLowerCase :: "case_conversion \<Rightarrow> js_string \<Rightarrow> js_string" where
  "toLowerCase unicode s = (if is_ascii s then map lower_ascii s else unicode s)"

text \<open>
  \<^verbatim>\<open>s.includes(t)\<close>: whether \<open>t\<close> occurs in \<open>s\<close> at some position, searched from
  the left.
\<close>

fun includes_str :: "js_string \<Rightarrow> js_string \<Rightarrow> bool" where
  "includes_str [] t = (t = [])"
| "includes_str (c # cs) t = (prefix t (c # cs) \<or> includes_str cs t)"

text \<open>
  The predicate of \<^verbatim>\<open>filteredDestinations\<close>, with the names of its two local constants. The
  static list \<^verbatim>\<open>MOCK_DESTINATIONS\<close> is not among the sources, so it is a parameter.
\<close>

definition matchesCategory :: "js_string \<Rightarrow> Destination \<Rightarrow> bool" where
  "matchesCategory activeCat d =
     (activeCat = str ''All'' \<or> category_str (category d) = activeCat \<or>
      (activeCat = str ''Budget Friendly'' \<and> price d \<le> 1500))"

definition matchesSearch :: "case_conversion \<Rightarrow> js_string \<Rightarrow> Destination \<Rightarrow> bool" where
  "matchesSearch unicode term d =
     (includes_str (toLowerCase unicode (Destination.name d)) (toLowerCase unicode term) \<or>
      includes_str (toLowerCase unicode (location d)) (toLowerCase unicode term))"

definition filteredDestinations ::
  "case_conversion \<Rightarrow> Destination list \<Rightarrow> js_string \<Rightarrow> js_string \<Rightarrow> Destination list" where
  "filteredDestinations unicode MOCK_DESTINATIONS term activeCat =
     filter (\<lambda>d. matchesCategory activeCat d \<and> matchesSearch unicode term d) MOCK_DESTINATIONS"

subsection \<open>The filter in the words of the specification\<close>

text \<open>
  Lowercasing as the specification means it, written by the alphabet and not by
  arithmetic on codes: each of the 26 capital letters is replaced by its small letter, and
  every other ASCII character stays. Text with a character outside ASCII is lowercased as
  Unicode says.
\<close>

definition lowercase_letter :: "code_unit \<Rightarrow> code_unit" where
  "lowercase_letter c =
     (case map_of (zip (str ''ABCDEFGHIJKLMNOPQRSTUVWXYZ'') (str ''abcdefghijklmnopqrstuvwxyz'')) c of
        Some l \<Rightarrow> l
      | None \<Rightarrow> c)"

definition lowercased :: "case_conversion \<Rightarrow> js_string \<Rightarrow> js_string" where
  "lowercased unicode s =
     (if list_all (\<lambda>c. c < 128) s then map lowercase_letter s else unicode s)"

text \<open>
  The filter as the specification words it, to be compared with the one above: the category
  is \<^verbatim>\<open>All\<close>, or equals the destination's category, or is \<^verbatim>\<open>Budget Friendly\<close> with a
  price of at most 1500; and the lowercased term is a substring of the lowercased name or of
  the lowercased location (\<open>sublist t s\<close>: \<open>s\<close> is \<open>ps @ t @ ss\<close> for some
  \<open>ps\<close> and \<open>ss\<close>).
\<close>

definition spec_matches :: "case_conversion \<Rightarrow> js_string \<Rightarrow> js_string \<Rightarrow> Destination \<Rightarrow> bool" where
  "spec_matches unicode t c d =
     ((c = str ''All'' \<or> category_str (category d) = c \<or>
       (c = str ''Budget Friendly'' \<and> price d \<le> 1500)) \<and>
      (sublist (lowercased unicode t) (lowercased unicode (Destination.name d)) \<or>
       sublist (lowercased unicode t) (lowercased unicode (location d))))"

text \<open>
  The two-element list of the specification's example. It gives the identifier, name,
  location, price and category of each destination; the other fields, which the filter
  does not read, are empty here.
\<close>

definition example_bali :: Destination where
  "example_bali =
     \<lparr>id_d = str ''1'', Destination.name = str ''Bali Retreat'', location = str ''Indonesia'',
      image = [], description = [], rating = 0, price = 800, category = Beach, reviews = 0,
      bestTime = [], timeline = None\<rparr>"

definition example_swiss :: Destination where
  "example_swiss =
     \<lparr>id_d = str ''2'', Destination.name = str ''Swiss Alps'', location = str ''Switzerland'',
      image = [], description = [], rating = 0, price = 3000, category = Mountain, reviews = 0,
      bestTime = [], timeline = None\<rparr>"

section \<open>Action handlers\<close>

text \<open>
  The collaborator \<^verbatim>\<open>AuthService\<close> is not among the sources. The handlers await three of
  its operations, each of which either resolves or throws; it is a parameter that answers
  every call with \<open>Inr ()\<close> (resolved) or \<open>Inl e\<close> (thrown \<open>e\<close>).
\<close>

datatype js_error = JsError js_string

datatype call =
  ToggleVisited js_string js_string bool
| ToggleWishlist js_string js_string bool
| Logout

type_synonym AuthService = "call \<Rightarrow> js_error + unit"

text \<open>
  What one run of an asynchronous handler leaves behind: the state after its updates, the
  calls it made to the collaborator, the lines it wrote with \<^verbatim>\<open>console.error\<close>, and
  whether its promise resolved (\<open>Inr ()\<close>) or was rejected with an error that nothing
  caught (\<open>Inl e\<close>). The handlers set state with absolute values only, so a run is taken
  as one step.
\<close>

record handler_result =
  state :: app_state
  calls :: "call list"
  console :: "(js_string \<times> js_error) list"
  outcome :: "js_error + unit"

definition setView :: "ViewState \<Rightarrow> app_state \<Rightarrow> app_state" where
  "setView v s = s\<lparr>view := v\<rparr>"

definition toggleVisited :: "AuthService \<Rightarrow> js_string \<Rightarrow> app_state \<Rightarrow> handler_result" where
  "toggleVisited auth i s =
     (case user s of
        None \<Rightarrow> \<lparr>state = setView LOGIN s, calls = [], console = [], outcome = Inr ()\<rparr>
      | Some u \<Rightarrow>
          (let isVisited = (i \<in> set (visitedPlaces u));
               c = ToggleVisited (uid u) i isVisited
           in case auth c of
                Inr _ \<Rightarrow>
                  \<lparr>state = (if \<not> isVisited
                            then showNotification (str ''Added to your Travel Log!'') Success s
                            else s),
                   calls = [c], console = [], outcome = Inr ()\<rparr>
              | Inl e \<Rightarrow>
                  \<lparr>state = showNotification (str ''Failed to update status'') Error s,
                   calls = [c], console = [(str ''Failed to update visited places'', e)],
                   outcome = Inr ()\<rparr>))"

definition toggleWishlist :: "AuthService \<Rightarrow> js_string \<Rightarrow> app_state \<Rightarrow> handler_result" where
  "toggleWishlist auth i s =
     (case user s of
        None \<Rightarrow> \<lparr>state = setView LOGIN s, calls = [], console = [], outcome = Inr ()\<rparr>
      | Some u \<Rightarrow>
          (let isWishlisted = (i \<in> set (wishlist u));
               c = ToggleWishlist (uid u) i isWishlisted
           in case auth c of
                Inr _ \<Rightarrow>
                  \<lparr>state = (if \<not> isWishlisted
                            then showNotification (str ''Added to Wishlist'') Success s
                            else showNotification (str ''Removed from Wishlist'') Info s),
                   calls = [c], console = [], outcome = Inr ()\<rparr>
              | Inl e \<Rightarrow>
                  \<lparr>state = showNotification (str ''Failed to update wishlist'') Error s,
                   calls = [c], console = [(str ''Failed to update wishlist'', e)],
                   outcome = Inr ()\<rparr>))"

text \<open>
  \<^verbatim>\<open>handleLogout\<close> awaits the collaborator outside any \<^verbatim>\<open>try\<close>: when the call throws,
  the three statements after it do not run and the handler's promise is rejected.
\<close>

definition handleLogout :: "AuthService \<Rightarrow> app_state \<Rightarrow> handler_result" where
  "handleLogout auth s =
     (case auth Logout of
        Inl e \<Rightarrow> \<lparr>state = s, calls = [Logout], console = [], outcome = Inl e\<rparr>
      | Inr _ \<Rightarrow>
          \<lparr>state = showNotification (str ''Logged out successfully'') Info
                     (setView LOGIN (s\<lparr>user := None\<rparr>)),
           calls = [Logout], console = [], outcome = Inr ()\<rparr>)"

definition handleAuthSuccess :: "User \<Rightarrow> app_state \<Rightarrow> app_state" where
  "handleAuthSuccess authenticatedUser s =
     showNotification (str ''Welcome back, '' @ User.name authenticatedUser @ str ''!'') Success
       (setView DASHBOARD (s\<lparr>user := Some authenticatedUser\<rparr>))"

definition handleDestinationClick :: "Destination \<Rightarrow> app_state \<Rightarrow> app_state" where
  "handleDestinationClick dest s = setView DETAILS (s\<lparr>selectedDestination := Some dest\<rparr>)"

definition handleHomeSearch :: "app_state \<Rightarrow> app_state" where
  "handleHomeSearch s = setView EXPLORE s"

text \<open>
  The user of the specification's example: authenticated, with destination 1 in the
  wishlist. The specification gives the wishlist only; the other fields are chosen here.
\<close>

definition example_user :: User where
  "example_user =
     \<lparr>uid = str ''u1'', User.name = str ''Ada'', username = str ''ada'',
      email = str ''ada@example.org'', wishlist = [str ''1''], visitedPlaces = [],
      createdAt = None\<rparr>"

section \<open>Rendering\<close>

text \<open>
  What \<^verbatim>\<open>renderContent\<close> returns, by screen, with the data that the root component
  computes for it. In the \<^verbatim>\<open>DETAILS\<close> case without a selected destination the
  function returns the value of \<^verbatim>\<open>setView(ViewState.EXPLORE)\<close>, which is undefined: nothing
  is rendered (\<open>NoScreen\<close>) and the view is set, so the component renders again.
\<close>

datatype screen =
  LoginScreen
| RegisterScreen
| ChatbotScreen
| DetailsScreen Destination bool bool
| ProtectedDashboard "User option" bool
| ExploreScreen "Destination list"
| HomeScreen
| NoScreen

definition renderContent ::
  "case_conversion \<Rightarrow> Destination list \<Rightarrow> app_state \<Rightarrow> screen \<times> app_state" where
  "renderContent unicode MOCK_DESTINATIONS s =
     (case view s of
        LOGIN \<Rightarrow> (LoginScreen, s)
      | REGISTER \<Rightarrow> (RegisterScreen, s)
      | CHATBOT \<Rightarrow> (ChatbotScreen, s)
      | DETAILS \<Rightarrow>
          (case selectedDestination s of
             Some d \<Rightarrow>
               (DetailsScreen d
                  (case user s of None \<Rightarrow> False | Some u \<Rightarrow> id_d d \<in> set (visitedPlaces u))
                  (case user s of None \<Rightarrow> False | Some u \<Rightarrow> id_d d \<in> set (wishlist u)),
                s)
           | None \<Rightarrow> (NoScreen, setView EXPLORE s))
      | DASHBOARD \<Rightarrow> (ProtectedDashboard (user s) (authLoading s), s)
      | EXPLORE \<Rightarrow>
          (ExploreScreen
             (filteredDestinations unicode MOCK_DESTINATIONS (searchTerm s) (activeCategory s)),
           s)
      | HOME \<Rightarrow> (HomeScreen, s))"

section \<open>Events\<close>

text \<open>
  Every way in which the state of the root component changes: the session listener, the
  callbacks it hands to its children, the inline handlers of its own elements, and a render.
  A category button exists for each position of \<^verbatim>\<open>CATEGORIES\<close> and for no other; a
  click on it carries that position. A toggle or logout carries the collaborator that
  answers it.
\<close>

datatype event =
  AuthChanged "User option"
| DestinationClick Destination
| ToggleVisitedClick AuthService js_string
| ToggleWishlistClick AuthService js_string
| LogoutClick AuthService
| AuthSuccess User
| HomeSearch
| Navigate ViewState
| SearchTermInput js_string
| SearchDateInput js_string
| SearchGuestsInput js_string
| CategoryClick nat
| ClearSearch
| ResetFilters
| BookingSuccess
| Notify js_string NotificationType
| CloseNotification
| Render

fun dispatch :: "case_conversion \<Rightarrow> Destination list \<Rightarrow> event \<Rightarrow> app_state \<Rightarrow> app_state" where
  "dispatch U D (AuthChanged currentUser) s = s\<lparr>user := currentUser, authLoading := False\<rparr>"
| "dispatch U D (DestinationClick dest) s = handleDestinationClick dest s"
| "dispatch U D (ToggleVisitedClick auth i) s = state (toggleVisited auth i s)"
| "dispatch U D (ToggleWishlistClick auth i) s = state (toggleWishlist auth i s)"
| "dispatch U D (LogoutClick auth) s = state (handleLogout auth s)"
| "dispatch U D (AuthSuccess u) s = handleAuthSuccess u s"
| "dispatch U D HomeSearch s = handleHomeSearch s"
| "dispatch U D (Navigate v) s = setView v s"
| "dispatch U D (SearchTermInput t) s = s\<lparr>searchTerm := t\<rparr>"
| "dispatch U D (SearchDateInput t) s = s\<lparr>searchDate := t\<rparr>"
| "dispatch U D (SearchGuestsInput t) s = s\<lparr>searchGuests := t\<rparr>"
| "dispatch U D (CategoryClick k) s =
     (if k < length CATEGORIES then s\<lparr>activeCategory := CATEGORIES ! k\<rparr> else s)"
| "dispatch U D ClearSearch s = s\<lparr>searchTerm := []\<rparr>"
| "dispatch U D ResetFilters s = s\<lparr>searchTerm := [], activeCategory := str ''All''\<rparr>"
| "dispatch U D BookingSuccess s =
     showNotification (str ''Adventure Booked! Packing your bags...'') Success
       (setView DASHBOARD s)"
| "dispatch U D (Notify msg ty) s = showNotification msg ty s"
| "dispatch U D CloseNotification s = closeNotification s"
| "dispatch U D Render s = snd (renderContent U D s)"

text \<open>The states that the component can be in: the initial one, and any reached by an event.\<close>

inductive reachable :: "case_conversion \<Rightarrow> Destination list \<Rightarrow> app_state \<Rightarrow> bool"
  for U :: case_conversion and D :: "Destination list" where
  reachable_init: "reachable U D init_state"
| reachable_step: "reachable U D s \<Longrightarrow> reachable U D (dispatch U D e s)"

section \<open>Lowercasing\<close>

text \<open>On the 26 capital letters the arithmetic and the alphabet agree.\<close>

lemma letters_agree:
  "\<forall>n\<in>set [65..<91]. lower_ascii (of_nat n) = lowercase_letter (of_nat n)"
  by (simp add: upt_rec lower_ascii_def lowercase_letter_def str_def)

lemma lower_ascii_letter: "lower_ascii c = lowercase_letter c"
proof (cases "65 \<le> c \<and> c \<le> 90")
  case True
  then have "65 \<le> unat c \<and> unat c < 91"
    by (simp add: word_le_nat_alt)
  then have "unat c \<in> set [65..<91]"
    by (simp only: set_upt atLeastLessThan_iff)
  with letters_agree have "lower_ascii (of_nat (unat c)) = lowercase_letter (of_nat (unat c))"
    by blast
  then show ?thesis by simp
next
  case False
  then have "c < 65 \<or> 90 < c" by auto
  then show ?thesis
    by (auto simp: lower_ascii_def lowercase_letter_def str_def)
qed

lemma toLowerCase_lowercased: "toLowerCase U s = lowercased U s"
  by (simp add: toLowerCase_def lowercased_def is_ascii_def lower_ascii_letter)

lemma toLowerCase_empty: "toLowerCase U [] = []"
  by (simp add: toLowerCase_def is_ascii_def)

text \<open>Capital and small letters of an ASCII text lowercase to the same string.\<close>

lemma toLowerCase_Bali:
  "toLowerCase U (str ''Bali Retreat'') = str ''bali retreat'' \<and>
   toLowerCase U (str ''BALI'') = str ''bali'' \<and>
   toLowerCase U (str ''bali'') = str ''bali''"
  by (simp add: toLowerCase_def is_ascii_def lower_ascii_def str_def)

section \<open>Properties of the filter\<close>

lemma includes_str_sublist: "includes_str s t = sublist t s"
  by (induction s) (simp_all add: sublist_Cons_right)

lemma includes_str_empty: "includes_str s []"
  by (cases s) simp_all

lemma matchesSearch_empty: "matchesSearch U [] d"
  by (simp add: matchesSearch_def toLowerCase_empty includes_str_empty)

lemma matches_iff_spec:
  "(matchesCategory c d \<and> matchesSearch U t d) = spec_matches U t c d"
  by (simp add: matchesCategory_def matchesSearch_def spec_matches_def includes_str_sublist
      toLowerCase_lowercased)

text \<open>No destination carries the synthetic category: its type has no such value.\<close>

lemma category_str_not_budget: "category_str k \<noteq> str ''Budget Friendly''"
  by (cases k) (simp_all add: str_def)

lemma matchesCategory_budget:
  "matchesCategory (str ''Budget Friendly'') d = (price d \<le> 1500)"
  using category_str_not_budget [of "category d"]
  by (auto simp: matchesCategory_def str_def)

lemma matchesCategory_All: "matchesCategory (str ''All'') d"
  by (simp add: matchesCategory_def)

lemma filter_All:
  "filteredDestinations U D t (str ''All'') = filter (matchesSearch U t) D"
  by (simp add: filteredDestinations_def matchesCategory_All)

text \<open>Two terms with the same lowercase form select the same destinations.\<close>

lemma filter_same_lowercase:
  assumes "toLowerCase U t = toLowerCase U t'"
  shows "filteredDestinations U D t c = filteredDestinations U D t' c"
  using assms by (simp add: filteredDestinations_def matchesSearch_def)

text \<open>
  A name and a term outside ASCII: when Unicode lowercases \<^verbatim>\<open>CAF\<close> followed by the capital
  E with acute (201) to \<^verbatim>\<open>caf\<close> followed by the small one (233), and leaves the latter as
  it is, the destination of that name is found by that term.
\<close>

lemma filter_unicode_name:
  assumes "Destination.name d = str ''CAF'' @ [201]"
    and "U (str ''CAF'' @ [201]) = str ''caf'' @ [233]"
    and "U (str ''caf'' @ [233]) = str ''caf'' @ [233]"
  shows "filteredDestinations U [d] (str ''caf'' @ [233]) (str ''All'') = [d]"
proof -
  have n: "toLowerCase U (Destination.name d) = str ''caf'' @ [233]"
    using assms(1,2) by (simp add: toLowerCase_def is_ascii_def str_def)
  have t: "toLowerCase U (str ''caf'' @ [233]) = str ''caf'' @ [233]"
    using assms(3) by (simp add: toLowerCase_def is_ascii_def str_def)
  have "matchesSearch U (str ''caf'' @ [233]) d"
    unfolding matchesSearch_def n t by (simp add: includes_str_sublist)
  then show ?thesis
    by (simp add: filteredDestinations_def matchesCategory_All)
qed

text \<open>
  C1. For every term \<open>t\<close> and active category \<open>c\<close>, the filter returns exactly the
  destinations of the list, in the order of the list, for which the category is
  \<^verbatim>\<open>All\<close>, or is the destination's category, or is \<^verbatim>\<open>Budget Friendly\<close> with a price of
  at most 1500, and for which the lowercased term is a substring of the lowercased name or
  of the lowercased location. The result is a subsequence of the list, and the empty term
  matches every destination, so that only the category test remains. On the example list
  the terms \<^verbatim>\<open>bali\<close> and \<^verbatim>\<open>BALI\<close> both select Bali Retreat by its name, \<^verbatim>\<open>LAND\<close>
  selects Swiss Alps by its location, and \<^verbatim>\<open>paris\<close> selects nothing.
\<close>

theorem filter_characterisation:
  "filteredDestinations U D t c = filter (spec_matches U t c) D \<and>
   subseq (filteredDestinations U D t c) D \<and>
   (\<forall>d. matchesSearch U [] d) \<and>
   filteredDestinations U D [] c = filter (matchesCategory c) D \<and>
   filteredDestinations U [example_bali, example_swiss] (str ''bali'') (str ''All'') =
     [example_bali] \<and>
   filteredDestinations U [example_bali, example_swiss] (str ''BALI'') (str ''All'') =
     [example_bali] \<and>
   filteredDestinations U [example_bali, example_swiss] (str ''LAND'') (str ''All'') =
     [example_swiss] \<and>
   filteredDestinations U [example_bali, example_swiss] (str ''paris'') (str ''All'') = []"
proof -
  have general:
    "filteredDestinations U D t c = filter (spec_matches U t c) D \<and>
     subseq (filteredDestinations U D t c) D \<and>
     (\<forall>d. matchesSearch U [] d) \<and>
     filteredDestinations U D [] c = filter (matchesCategory c) D"
    by (simp add: filteredDestinations_def matches_iff_spec matchesSearch_empty)
  have examples:
    "filteredDestinations U [example_bali, example_swiss] (str ''bali'') (str ''All'') =
       [example_bali]"
    "filteredDestinations U [example_bali, example_swiss] (str ''BALI'') (str ''All'') =
       [example_bali]"
    "filteredDestinations U [example_bali, example_swiss] (str ''LAND'') (str ''All'') =
       [example_swiss]"
    "filteredDestinations U [example_bali, example_swiss] (str ''paris'') (str ''All'') = []"
    unfolding filter_All
    by (simp_all add: matchesSearch_def toLowerCase_def is_ascii_def lower_ascii_def str_def
        example_bali_def example_swiss_def)
  from general examples show ?thesis by blast
qed

text \<open>
  C4. With the category \<^verbatim>\<open>Budget Friendly\<close> and the empty term, the filter returns exactly
  the destinations whose price is at most 1500, whatever their own category; on the example
  list of two destinations the result is the first one (Bali Retreat) only.
\<close>

theorem filter_budget_friendly:
  "filteredDestinations U D [] (str ''Budget Friendly'') = filter (\<lambda>d. price d \<le> 1500) D \<and>
   filteredDestinations U [example_bali, example_swiss] [] (str ''Budget Friendly'') =
     [example_bali]"
  by (simp add: filteredDestinations_def matchesCategory_budget matchesSearch_empty
      example_bali_def example_swiss_def)

text \<open>
  C5. Filtering is idempotent: for every destination list, term and category, filtering the
  result of the filter again with the same term and category gives the same list.
\<close>

theorem filter_idempotent:
  "filteredDestinations U (filteredDestinations U D t c) t c = filteredDestinations U D t c"
  by (simp add: filteredDestinations_def)

text \<open>
  C6. With the category \<^verbatim>\<open>All\<close> and the empty term the filter returns its input list.
\<close>

theorem filter_All_empty_identity: "filteredDestinations U D [] (str ''All'') = D"
  by (simp add: filteredDestinations_def matchesCategory_All matchesSearch_empty)

section \<open>Properties of the notification holder\<close>

text \<open>
  C10. Closing the notification sets its visibility flag to false and changes nothing else:
  the message and the kind stay as they were, and so does the rest of the state.
\<close>

theorem closeNotification_frame:
  "isVisible (notification (closeNotification s)) = False \<and>
   message (notification (closeNotification s)) = message (notification s) \<and>
   type (notification (closeNotification s)) = type (notification s) \<and>
   closeNotification s = s\<lparr>notification := (notification s)\<lparr>isVisible := False\<rparr>\<rparr>"
  by (simp add: closeNotification_def)

section \<open>Properties of the action handlers\<close>

text \<open>
  C3. With no authenticated user, \<^verbatim>\<open>toggleVisited\<close> and \<^verbatim>\<open>toggleWishlist\<close> make no call
  to the collaborator, whatever the destination identifier and whatever the collaborator
  would answer; they change the view to \<^verbatim>\<open>LOGIN\<close> and nothing else in the state, so the
  notification is the one that was there.
\<close>

theorem toggle_unauthenticated:
  assumes "user s = None"
  shows "toggleVisited auth i s =
           \<lparr>state = s\<lparr>view := LOGIN\<rparr>, calls = [], console = [], outcome = Inr ()\<rparr> \<and>
         toggleWishlist auth i s =
           \<lparr>state = s\<lparr>view := LOGIN\<rparr>, calls = [], console = [], outcome = Inr ()\<rparr> \<and>
         notification (state (toggleVisited auth i s)) = notification s \<and>
         notification (state (toggleWishlist auth i s)) = notification s \<and>
         view (state (toggleVisited auth i s)) = LOGIN \<and>
         view (state (toggleWishlist auth i s)) = LOGIN"
  using assms by (simp add: toggleVisited_def toggleWishlist_def setView_def)

text \<open>The initial state has no user: both toggles route it to the login view.\<close>

theorem toggle_unauthenticated_witness:
  "user init_state = None \<and>
   toggleVisited (\<lambda>c. Inr ()) (str ''1'') init_state =
     \<lparr>state = init_state\<lparr>view := LOGIN\<rparr>, calls = [], console = [], outcome = Inr ()\<rparr> \<and>
   toggleWishlist (\<lambda>c. Inr ()) (str ''1'') init_state =
     \<lparr>state = init_state\<lparr>view := LOGIN\<rparr>, calls = [], console = [], outcome = Inr ()\<rparr>"
proof -
  have h: "user init_state = None" by (simp add: init_state_def)
  show ?thesis using h toggle_unauthenticated [OF h, of "\<lambda>c. Inr ()" "str ''1''"] by simp
qed

text \<open>
  C7. For an authenticated user, \<^verbatim>\<open>toggleWishlist\<close> on a destination that is in the
  wishlist calls the collaborator once, with \<^verbatim>\<open>currentlyWishlisted\<close> true, and when that
  call succeeds it shows the notification \<^verbatim>\<open>Removed from Wishlist\<close> of kind info; on a
  destination that is not in the wishlist it calls the collaborator with
  \<^verbatim>\<open>currentlyWishlisted\<close> false, and on success shows \<^verbatim>\<open>Added to Wishlist\<close> of kind
  success.
\<close>

theorem toggleWishlist_authenticated:
  assumes "user s = Some u"
  shows "(i \<in> set (wishlist u) \<longrightarrow>
            calls (toggleWishlist auth i s) = [ToggleWishlist (uid u) i True] \<and>
            (auth (ToggleWishlist (uid u) i True) = Inr () \<longrightarrow>
               notification (state (toggleWishlist auth i s)) =
                 \<lparr>message = str ''Removed from Wishlist'', type = Info, isVisible = True\<rparr>)) \<and>
         (i \<notin> set (wishlist u) \<longrightarrow>
            calls (toggleWishlist auth i s) = [ToggleWishlist (uid u) i False] \<and>
            (auth (ToggleWishlist (uid u) i False) = Inr () \<longrightarrow>
               notification (state (toggleWishlist auth i s)) =
                 \<lparr>message = str ''Added to Wishlist'', type = Success, isVisible = True\<rparr>))"
  using assms
  by (auto simp: toggleWishlist_def showNotification_def Let_def split: sum.splits)

text \<open>
  The user of the specification's example, with wishlist \<^verbatim>\<open>["1"]\<close>: destination 1 is
  removed, destination 2 is added.
\<close>

theorem toggleWishlist_authenticated_witness:
  "calls (toggleWishlist (\<lambda>c. Inr ()) (str ''1'') (init_state\<lparr>user := Some example_user\<rparr>)) =
     [ToggleWishlist (str ''u1'') (str ''1'') True] \<and>
   notification
     (state (toggleWishlist (\<lambda>c. Inr ()) (str ''1'') (init_state\<lparr>user := Some example_user\<rparr>))) =
     \<lparr>message = str ''Removed from Wishlist'', type = Info, isVisible = True\<rparr> \<and>
   calls (toggleWishlist (\<lambda>c. Inr ()) (str ''2'') (init_state\<lparr>user := Some example_user\<rparr>)) =
     [ToggleWishlist (str ''u1'') (str ''2'') False] \<and>
   notification
     (state (toggleWishlist (\<lambda>c. Inr ()) (str ''2'') (init_state\<lparr>user := Some example_user\<rparr>))) =
     \<lparr>message = str ''Added to Wishlist'', type = Success, isVisible = True\<rparr>"
proof -
  have h: "user (init_state\<lparr>user := Some example_user\<rparr>) = Some example_user" by simp
  have m: "str ''1'' \<in> set (wishlist example_user)" "str ''2'' \<notin> set (wishlist example_user)"
    by (simp_all add: example_user_def str_def)
  have u: "uid example_user = str ''u1''" by (simp add: example_user_def)
  show ?thesis
    using toggleWishlist_authenticated [OF h, of "str ''1''" "\<lambda>c. Inr ()"]
      toggleWishlist_authenticated [OF h, of "str ''2''" "\<lambda>c. Inr ()"] m
    unfolding u by simp
qed

subsection \<open>Errors thrown by the collaborator\<close>

text \<open>
  The two toggles await the collaborator inside \<^verbatim>\<open>try\<close>: their promise always resolves,
  and a thrown error becomes an error notification, with the cached user as it was.
\<close>

lemma toggleVisited_catches: "outcome (toggleVisited auth i s) = Inr ()"
  by (simp add: toggleVisited_def Let_def split: option.splits sum.splits)

lemma toggleWishlist_catches: "outcome (toggleWishlist auth i s) = Inr ()"
  by (simp add: toggleWishlist_def Let_def split: option.splits sum.splits)

lemma toggleVisited_failure:
  assumes "user s = Some u"
    and "auth (ToggleVisited (uid u) i (i \<in> set (visitedPlaces u))) = Inl e"
  shows "state (toggleVisited auth i s) =
           showNotification (str ''Failed to update status'') Error s"
  using assms by (simp add: toggleVisited_def Let_def)

lemma toggleWishlist_failure:
  assumes "user s = Some u"
    and "auth (ToggleWishlist (uid u) i (i \<in> set (wishlist u))) = Inl e"
  shows "state (toggleWishlist auth i s) =
           showNotification (str ''Failed to update wishlist'') Error s"
  using assms by (simp add: toggleWishlist_def Let_def)

lemma showNotification_user: "user (showNotification msg ty s) = user s"
  by (simp add: showNotification_def)

lemma toggle_keeps_user:
  "user (state (toggleVisited auth i s)) = user s \<and>
   user (state (toggleWishlist auth i s)) = user s"
  by (simp add: toggleVisited_def toggleWishlist_def setView_def showNotification_def Let_def
      split: option.splits sum.splits)

lemma handleLogout_throwing_collaborator:
  "handleLogout (\<lambda>c. Inl e) s = \<lparr>state = s, calls = [Logout], console = [], outcome = Inl e\<rparr>"
  by (simp add: handleLogout_def)

text \<open>
  C2. The claim is that an error thrown by the collaborator is caught in
  \<^verbatim>\<open>toggleVisited\<close>, \<^verbatim>\<open>toggleWishlist\<close> and \<^verbatim>\<open>handleLogout\<close>, shown as an error
  notification and not propagated. The toggles do so (lemmas above). \<^verbatim>\<open>handleLogout\<close>
  does not: when the collaborator's logout throws in the initial state, the handler's
  promise is rejected with that error, and the state, with its hidden empty notification,
  is as it was.
\<close>

theorem handleLogout_rejects:
  "handleLogout (\<lambda>c. Inl (JsError (str ''network''))) init_state =
     \<lparr>state = init_state, calls = [Logout], console = [],
      outcome = Inl (JsError (str ''network''))\<rparr> \<and>
   notification (state (handleLogout (\<lambda>c. Inl (JsError (str ''network''))) init_state)) =
     \<lparr>message = [], type = Info, isVisible = False\<rparr>"
  by (simp add: handleLogout_def init_state_def)

section \<open>Properties of the view router\<close>

text \<open>
  C8. When the view is \<^verbatim>\<open>DETAILS\<close> and no destination is selected, rendering returns
  normally with nothing to show and sets the view to \<^verbatim>\<open>EXPLORE\<close>; nothing else in the
  state changes, so no notification is raised, and the next render gives the explore screen.
\<close>

theorem details_without_selection:
  assumes "view s = DETAILS" and "selectedDestination s = None"
  shows "renderContent U D s = (NoScreen, s\<lparr>view := EXPLORE\<rparr>) \<and>
         notification (snd (renderContent U D s)) = notification s \<and>
         renderContent U D (snd (renderContent U D s)) =
           (ExploreScreen (filteredDestinations U D (searchTerm s) (activeCategory s)),
            s\<lparr>view := EXPLORE\<rparr>)"
  using assms by (simp add: renderContent_def setView_def)

text \<open>The initial state with the view set to \<^verbatim>\<open>DETAILS\<close> has no selected destination.\<close>

theorem details_without_selection_witness:
  "view (init_state\<lparr>view := DETAILS\<rparr>) = DETAILS \<and>
   selectedDestination (init_state\<lparr>view := DETAILS\<rparr>) = None \<and>
   renderContent (\<lambda>s. s) [] (init_state\<lparr>view := DETAILS\<rparr>) =
     (NoScreen, init_state\<lparr>view := DETAILS, view := EXPLORE\<rparr>) \<and>
   renderContent (\<lambda>s. s) [] (snd (renderContent (\<lambda>s. s) [] (init_state\<lparr>view := DETAILS\<rparr>))) =
     (ExploreScreen [], init_state\<lparr>view := DETAILS, view := EXPLORE\<rparr>)"
proof -
  have v: "view (init_state\<lparr>view := DETAILS\<rparr>) = DETAILS" by simp
  have n: "selectedDestination (init_state\<lparr>view := DETAILS\<rparr>) = None"
    by (simp add: init_state_def)
  have f: "filteredDestinations (\<lambda>s. s) [] (searchTerm (init_state\<lparr>view := DETAILS\<rparr>))
             (activeCategory (init_state\<lparr>view := DETAILS\<rparr>)) = []"
    by (simp add: filteredDestinations_def)
  show ?thesis
    using v n details_without_selection [OF v n, of "\<lambda>s. s" "[]"] unfolding f by blast
qed

section \<open>The active category\<close>

lemma dispatch_activeCategory:
  assumes "activeCategory s \<in> set CATEGORIES"
  shows "activeCategory (dispatch U D e s) \<in> set CATEGORIES"
proof (cases e)
  case (CategoryClick k)
  with assms show ?thesis by simp
next
  case ResetFilters
  then show ?thesis by (simp add: CATEGORIES_def)
next
  case Render
  with assms show ?thesis
    by (simp add: renderContent_def setView_def split: ViewState.splits option.splits)
qed (use assms in \<open>simp_all add: handleDestinationClick_def toggleVisited_def toggleWishlist_def
      handleLogout_def handleAuthSuccess_def handleHomeSearch_def setView_def
      showNotification_def closeNotification_def Let_def split: option.splits sum.splits\<close>)

text \<open>
  C9. In every state that the component can reach, the active category is a member of the
  fixed list \<^verbatim>\<open>CATEGORIES\<close>: it is \<^verbatim>\<open>All\<close> at the start, and the only events that set
  it are a click on one of the category buttons and the reset of the filters.
\<close>

theorem activeCategory_invariant:
  "reachable U D s \<Longrightarrow> activeCategory s \<in> set CATEGORIES"
proof (induction rule: reachable.induct)
  case reachable_init
  show ?case by (simp add: init_state_def CATEGORIES_def)
next
  case (reachable_step s e)
  then show ?case by (simp add: dispatch_activeCategory)
qed

text \<open>A click on the last category button, from the initial state.\<close>

theorem activeCategory_invariant_witness:
  "reachable (\<lambda>s. s) [] (dispatch (\<lambda>s. s) [] (CategoryClick 7) init_state) \<and>
   activeCategory (dispatch (\<lambda>s. s) [] (CategoryClick 7) init_state) = str ''Budget Friendly'' \<and>
   activeCategory (dispatch (\<lambda>s. s) [] (CategoryClick 7) init_state) \<in> set CATEGORIES"
proof -
  have r: "reachable (\<lambda>s. s) [] (dispatch (\<lambda>s. s) [] (CategoryClick 7) init_state)"
    by (rule reachable_step) (rule reachable_init)
  have a: "activeCategory (dispatch (\<lambda>s. s) [] (CategoryClick 7) init_state) =
             str ''Budget Friendly''"
    by (simp add: CATEGORIES_def)
  show ?thesis using r a activeCategory_invariant [OF r] by simp
qed

end
